theory Spec2Isabelle
  imports
    Complex_Main
    "HOL-Library.Char_ord"
    "HOL-Library.List_Lexorder"
    "HOL-Library.Option_ord"
begin

section \<open>Data model\<close>

text \<open>
  The program of \<^verbatim>\<open>quiz_analysis.py\<close> works on pandas tables built from JSON records.
  The embedding keeps a table as its list of column labels and its list of rows, in
  row order. Rows carry the five fields of a submission record. A numeric cell is a
  \<open>real option\<close>: \<open>None\<close> is NaN (a missing value), and a finite float is
  identified with the real number it denotes. A topic label is a \<open>string option\<close>,
  \<open>None\<close> being a missing label. The field \<open>submission_time\<close> has a type parameter:
  \<open>string option\<close> in a table loaded from JSON (\<open>None\<close> is a missing time),
  \<open>int option\<close> after \<^verbatim>\<open>pd.to_datetime\<close> (\<open>None\<close> is NaT) and \<open>unit\<close> in the
  topic statistics, which have no such column.

  A field whose column label is not in \<open>columns\<close> is not part of the table: every
  operation below looks the label up first and raises \<open>KeyError\<close>, as pandas does.
  Fields of the JSON records other than these five are not kept, and the cells of a
  column have the type of its field: the accuracy, difficulty and score columns hold
  floats, the topic and time columns hold strings.
\<close>

datatype column = Topic | Accuracy | Difficulty | Score | Submission_time

type_synonym num = "real option"

record 't submission =
  topic :: "string option"
  accuracy :: num
  difficulty :: num
  score :: num
  submission_time :: 't

record 't frame =
  columns :: "column list"
  rows :: "'t submission list"

datatype error = KeyError column | ValueError | NonNumericError | TypeError

text \<open>\<^verbatim>\<open>pd.DataFrame()\<close> and \<^verbatim>\<open>DataFrame.empty\<close> (true when either axis has length 0).\<close>

definition empty_frame :: "'t frame" where
  "empty_frame = \<lparr>columns = [], rows = []\<rparr>"

definition empty_df :: "'t frame \<Rightarrow> bool" where
  "empty_df df \<longleftrightarrow> rows df = [] \<or> columns df = []"

section \<open>Insight Generator\<close>

text \<open>
  \<^verbatim>\<open>Series.diff()\<close>: the first entry is NaN, every other entry is the value minus the
  value one row above; NaN propagates through the subtraction.
\<close>

fun num_sub :: "num \<Rightarrow> num \<Rightarrow> num" where
  "num_sub (Some a) (Some b) = Some (a - b)"
| "num_sub _ _ = None"

fun diff_from :: "num \<Rightarrow> num list \<Rightarrow> num list" where
  "diff_from prev [] = []"
| "diff_from prev (x # xs) = num_sub x prev # diff_from x xs"

definition diff :: "num list \<Rightarrow> num list" where
  "diff xs = (case xs of [] \<Rightarrow> [] | x # ys \<Rightarrow> None # diff_from x ys)"

text \<open>Comparisons of a float column with a constant: a NaN compares false.\<close>

fun num_lt :: "num \<Rightarrow> real \<Rightarrow> bool" where
  "num_lt (Some a) c = (a < c)"
| "num_lt None c = False"

fun num_gt :: "num \<Rightarrow> real \<Rightarrow> bool" where
  "num_gt (Some a) c = (a > c)"
| "num_gt None c = False"

text \<open>\<^verbatim>\<open>df[mask]\<close>: the rows whose mask entry is true, in row order.\<close>

definition select_rows :: "'t frame \<Rightarrow> bool list \<Rightarrow> 't frame" where
  "select_rows df flags = df\<lparr>rows := map fst (filter snd (zip (rows df) flags))\<rparr>"

text \<open>
  \<^verbatim>\<open>generate_insight_details\<close>, lines 94 to 104. Both lookups of \<^verbatim>\<open>'accuracy'\<close>
  raise \<open>KeyError\<close> on a table without that column, the one on \<^verbatim>\<open>topic_stats\<close> first.
\<close>

definition generate_insight_details ::
  "'a frame \<Rightarrow> 'b frame \<Rightarrow> error + ('a frame \<times> 'b frame)" where
  "generate_insight_details topic_stats recent_trends =
     (if Accuracy \<notin> set (columns topic_stats) then Inl (KeyError Accuracy)
      else
        let weak_topics =
              select_rows topic_stats
                (map (\<lambda>r. num_lt (accuracy r) (6 / 10)) (rows topic_stats))
        in
          if Accuracy \<notin> set (columns recent_trends) then Inl (KeyError Accuracy)
          else
            let improvement_trends =
                  select_rows recent_trends
                    (map (\<lambda>d. num_gt d 0) (diff (map accuracy (rows recent_trends))))
            in Inr (weak_topics, improvement_trends))"

section \<open>Performance Analyzer\<close>

text \<open>
  \<^verbatim>\<open>groupby('topic')\<close>: the group keys are the distinct labels that are not missing
  (pandas drops missing keys), sorted ascending (\<^verbatim>\<open>sort=True\<close> is the default);
  a group holds the rows of its label in row order. Python compares strings by code
  point, which is the lexicographic order of \<open>string\<close>.
\<close>

fun dropna :: "'a option list \<Rightarrow> 'a list" where
  "dropna [] = []"
| "dropna (None # xs) = dropna xs"
| "dropna (Some x # xs) = x # dropna xs"

definition group_keys :: "'t frame \<Rightarrow> string list" where
  "group_keys df = sort (remdups (dropna (map topic (rows df))))"

definition group_rows :: "'t frame \<Rightarrow> string \<Rightarrow> 't submission list" where
  "group_rows df k = filter (\<lambda>r. topic r = Some k) (rows df)"

definition groupby_topic :: "'t frame \<Rightarrow> error + (string \<times> 't submission list) list" where
  "groupby_topic df =
     (if Topic \<notin> set (columns df) then Inl (KeyError Topic)
      else Inr (map (\<lambda>k. (k, group_rows df k)) (group_keys df)))"

text \<open>The mean of a group skips NaN; a group without any number has mean NaN.\<close>

definition mean :: "num list \<Rightarrow> num" where
  "mean xs =
     (let vs = dropna xs
      in if vs = [] then None else Some (sum_list vs / real (length vs)))"

text \<open>
  \<^verbatim>\<open>.agg({'accuracy': 'mean', 'difficulty': 'mean', 'score': 'mean'}).reset_index()\<close>:
  one row per group, in key order.
\<close>

definition agg_mean :: "(string \<times> 't submission list) list \<Rightarrow> unit frame" where
  "agg_mean groups =
     \<lparr>columns = [Topic, Accuracy, Difficulty, Score],
      rows = map (\<lambda>(k, g).
               \<lparr>topic = Some k,
                accuracy = mean (map accuracy g),
                difficulty = mean (map difficulty g),
                score = mean (map score g),
                submission_time = ()\<rparr>) groups\<rparr>"

text \<open>
  \<^verbatim>\<open>sort_values(by='submission_time', ascending=False)\<close> goes through pandas'
  \<^verbatim>\<open>nargsort\<close>: the missing values are set aside, the other values are reversed and
  handed to numpy's \<open>argsort\<close>, the resulting indexer is reversed, and the positions
  of the missing values are appended (\<^verbatim>\<open>na_position='last'\<close>). The call does not pass
  \<^verbatim>\<open>kind\<close>, so the sort is numpy's default \<^verbatim>\<open>'quicksort'\<close>; it is the parameter
  \<open>argsort\<close> here.
\<close>

definition nargsort :: "(string list \<Rightarrow> nat list) \<Rightarrow> string option list \<Rightarrow> nat list" where
  "nargsort argsort items =
     (let idx = [0..<length items];
          non_nan_idx = filter (\<lambda>i. items ! i \<noteq> None) idx;
          nan_idx = filter (\<lambda>i. items ! i = None) idx;
          non_nans = rev (map (\<lambda>i. the (items ! i)) non_nan_idx);
          non_nan_idx = rev non_nan_idx;
          indexer = rev (map (\<lambda>p. non_nan_idx ! p) (argsort non_nans))
      in indexer @ nan_idx)"

definition sort_values ::
  "(string list \<Rightarrow> nat list) \<Rightarrow> string option frame \<Rightarrow> error + string option frame" where
  "sort_values argsort df =
     (if Submission_time \<notin> set (columns df) then Inl (KeyError Submission_time)
      else Inr (df\<lparr>rows := map (\<lambda>i. rows df ! i)
                              (nargsort argsort (map submission_time (rows df)))\<rparr>))"

definition head :: "nat \<Rightarrow> 't frame \<Rightarrow> 't frame" where
  "head n df = df\<lparr>rows := take n (rows df)\<rparr>"

text \<open>
  \<^verbatim>\<open>pd.to_datetime(column, errors='coerce')\<close>: a missing value becomes NaT, a string
  becomes its timestamp, or NaT when it does not parse. The parser is pandas' own and is
  a parameter; it sees the column too, since pandas infers the format from the column.
\<close>

definition to_datetime ::
  "(string option list \<Rightarrow> string \<Rightarrow> int option) \<Rightarrow> string option list \<Rightarrow> int option list" where
  "to_datetime parser col = map (\<lambda>c. case c of None \<Rightarrow> None | Some s \<Rightarrow> parser col s) col"

text \<open>\<^verbatim>\<open>df['submission_time'] = values\<close>, with as many values as rows.\<close>

definition set_submission_time :: "'a frame \<Rightarrow> 'b list \<Rightarrow> 'b frame" where
  "set_submission_time df vals =
     \<lparr>columns = (if Submission_time \<in> set (columns df) then columns df
                 else columns df @ [Submission_time]),
      rows = map (\<lambda>(r, v).
               \<lparr>topic = topic r, accuracy = accuracy r, difficulty = difficulty r,
                score = score r, submission_time = v\<rparr>) (zip (rows df) vals)\<rparr>"

definition required_cols :: "column list" where
  "required_cols = [Topic, Accuracy, Difficulty, Score, Submission_time]"

text \<open>\<^verbatim>\<open>analyze_performance_data\<close>, lines 62 to 83.\<close>

definition analyze_performance_data ::
  "(string list \<Rightarrow> nat list) \<Rightarrow> (string option list \<Rightarrow> string \<Rightarrow> int option) \<Rightarrow>
   'c frame \<Rightarrow> string option frame \<Rightarrow> error + (unit frame \<times> int option frame)" where
  "analyze_performance_data argsort parser current_df historical_df =
     (if \<not> set required_cols \<subseteq> set (columns historical_df)
      then Inr (empty_frame, empty_frame)
      else
        (case groupby_topic historical_df of
           Inl e \<Rightarrow> Inl e
         | Inr groups \<Rightarrow>
             (let topic_stats = agg_mean groups
              in (case sort_values argsort historical_df of
                    Inl e \<Rightarrow> Inl e
                  | Inr sorted_df \<Rightarrow>
                      (let recent_trends = head 5 sorted_df;
                           recent_trends =
                             set_submission_time recent_trends
                               (to_datetime parser (map submission_time (rows recent_trends)))
                       in Inr (topic_stats, recent_trends))))))"

section \<open>Persona Identifier\<close>

text \<open>
  The sample standard deviation (\<^verbatim>\<open>ddof=1\<close>) of a group skips NaN and is NaN when fewer
  than two numbers remain.
\<close>

definition std :: "num list \<Rightarrow> num" where
  "std xs =
     (let vs = dropna xs; n = length vs
      in if n < 2 then None
         else let m = sum_list vs / real n
              in Some (sqrt (sum_list (map (\<lambda>v. (v - m)\<^sup>2) vs) / real (n - 1))))"

text \<open>
  \<^verbatim>\<open>historical_df.groupby('topic').std()['accuracy']\<close> and the same with \<^verbatim>\<open>mean()\<close>:
  the reduction runs over every column other than the key. Whether a column of strings
  is dropped from it or makes it raise depends on the default of \<^verbatim>\<open>numeric_only\<close>
  (true in effect before pandas 2.0, false since), hence the parameter; the exception
  is \<open>NonNumericError\<close> here. The result is the series of the accuracy column, indexed
  by the group keys in key order.
\<close>

definition groupby_reduce ::
  "bool \<Rightarrow> (num list \<Rightarrow> num) \<Rightarrow> string option frame \<Rightarrow> error + (string \<times> num) list" where
  "groupby_reduce numeric_only f df =
     (case groupby_topic df of
        Inl e \<Rightarrow> Inl e
      | Inr groups \<Rightarrow>
          (if \<not> numeric_only \<and> Submission_time \<in> set (columns df) then Inl NonNumericError
           else if Accuracy \<notin> set (columns df) then Inl (KeyError Accuracy)
           else Inr (map (\<lambda>(k, g). (k, f (map accuracy g))) groups)))"

text \<open>
  \<^verbatim>\<open>idxmin()\<close> and \<^verbatim>\<open>idxmax()\<close> skip NaN and return the label of the first entry that
  attains the extremum. On a series of NaN only they return NaN (pandas before 3.0), on
  an empty series they raise \<open>ValueError\<close>.
\<close>

fun first_best :: "(real \<Rightarrow> real \<Rightarrow> bool) \<Rightarrow> (string \<times> num) list \<Rightarrow> (string \<times> real) option" where
  "first_best better [] = None"
| "first_best better ((k, None) # s) = first_best better s"
| "first_best better ((k, Some v) # s) =
     (case first_best better s of
        None \<Rightarrow> Some (k, v)
      | Some (k', v') \<Rightarrow> if better v' v then Some (k', v') else Some (k, v))"

definition idxmin :: "(string \<times> num) list \<Rightarrow> error + string option" where
  "idxmin s = (if s = [] then Inl ValueError else Inr (map_option fst (first_best (<) s)))"

definition idxmax :: "(string \<times> num) list \<Rightarrow> error + string option" where
  "idxmax s = (if s = [] then Inl ValueError else Inr (map_option fst (first_best (>) s)))"

text \<open>
  The result of \<^verbatim>\<open>identify_student_persona\<close> is a string or a dictionary with the two
  keys \<^verbatim>\<open>"Consistent Topic"\<close> and \<^verbatim>\<open>"Top Performing Topic"\<close>.
\<close>

datatype persona =
  Insufficient string
| Persona (Consistent_Topic: "string option") (Top_Performing_Topic: "string option")

text \<open>\<^verbatim>\<open>identify_student_persona\<close>, lines 106 to 120.\<close>

definition identify_student_persona :: "bool \<Rightarrow> string option frame \<Rightarrow> error + persona" where
  "identify_student_persona numeric_only historical_df =
     (if empty_df historical_df \<or> Accuracy \<notin> set (columns historical_df)
      then Inr (Insufficient ''Insufficient data to analyze student persona.'')
      else
        (case groupby_reduce numeric_only std historical_df of
           Inl e \<Rightarrow> Inl e
         | Inr stds \<Rightarrow>
             (case idxmin stds of
                Inl e \<Rightarrow> Inl e
              | Inr consistent_topic \<Rightarrow>
                  (case groupby_reduce numeric_only mean historical_df of
                     Inl e \<Rightarrow> Inl e
                   | Inr means \<Rightarrow>
                       (case idxmax means of
                          Inl e \<Rightarrow> Inl e
                        | Inr top_topic \<Rightarrow> Inr (Persona consistent_topic top_topic))))))"

section \<open>Recommendation Generator\<close>

text \<open>
  The format \<^verbatim>\<open>:.2f\<close> prints the sign, the integer part and two decimals of the value
  rounded to the nearest hundredth, a tie going to the even neighbour; NaN prints as
  \<^verbatim>\<open>nan\<close>. A missing label prints as \<^verbatim>\<open>nan\<close> too.
\<close>

definition round_half_even :: "real \<Rightarrow> int" where
  "round_half_even y =
     (let f = \<lfloor>y\<rfloor>; d = y - of_int f
      in if d < 1 / 2 then f else if 1 / 2 < d then f + 1 else if even f then f else f + 1)"

definition digit_char :: "nat \<Rightarrow> char" where
  "digit_char d = ''0123456789'' ! d"

fun digits :: "nat \<Rightarrow> string" where
  "digits n = (if n < 10 then [digit_char n] else digits (n div 10) @ [digit_char (n mod 10)])"

definition format_2f :: "num \<Rightarrow> string" where
  "format_2f x =
     (case x of
        None \<Rightarrow> ''nan''
      | Some v \<Rightarrow>
          (let m = nat (round_half_even (\<bar>v\<bar> * 100))
           in (if v < 0 then ''-'' else []) @ digits (m div 100) @ ''.'' @
              [digit_char (m mod 100 div 10), digit_char (m mod 10)]))"

definition str_label :: "string option \<Rightarrow> string" where
  "str_label l = (case l of None \<Rightarrow> ''nan'' | Some s \<Rightarrow> s)"

definition quoted :: "string \<Rightarrow> string" where
  "quoted s = [CHR 0x27] @ s @ [CHR 0x27]"

definition focus_line :: "'t submission \<Rightarrow> string" where
  "focus_line row =
     ''Focus on the topic '' @ quoted (str_label (topic row)) @ '' with an accuracy of '' @
     format_2f (accuracy row) @ ''.''"

definition encouragement :: string where
  "encouragement = ''No weak topics identified. Keep up the good work!''"

definition leverage_line :: "string option \<Rightarrow> string" where
  "leverage_line l = ''Leverage your strength in '' @ quoted (str_label l) @ '' to build confidence.''"

definition maintain_line :: "string option \<Rightarrow> string" where
  "maintain_line l = ''Maintain consistency in '' @ quoted (str_label l) @ ''.''"

definition fallback :: string where
  "fallback = ''Unable to analyze persona due to insufficient data.''"

text \<open>
  \<^verbatim>\<open>generate_recommendations\<close>, lines 150 to 170. In the loop over the rows,
  \<^verbatim>\<open>row['topic']\<close> and then \<^verbatim>\<open>row['accuracy']\<close> raise \<open>KeyError\<close> on a table without
  the column.
\<close>

definition weak_topic_lines :: "'t frame \<Rightarrow> error + string list" where
  "weak_topic_lines weak_topics =
     (if empty_df weak_topics then Inr [encouragement]
      else if Topic \<notin> set (columns weak_topics) then Inl (KeyError Topic)
      else if Accuracy \<notin> set (columns weak_topics) then Inl (KeyError Accuracy)
      else Inr (map focus_line (rows weak_topics)))"

definition persona_lines :: "persona \<Rightarrow> string list" where
  "persona_lines student_persona =
     (case student_persona of
        Persona consistent_topic top_topic \<Rightarrow>
          [leverage_line top_topic, maintain_line consistent_topic]
      | Insufficient msg \<Rightarrow> [fallback])"

definition generate_recommendations :: "'t frame \<Rightarrow> persona \<Rightarrow> error + string list" where
  "generate_recommendations weak_topics student_persona =
     (case weak_topic_lines weak_topics of
        Inl e \<Rightarrow> Inl e
      | Inr recommendations \<Rightarrow> Inr (recommendations @ persona_lines student_persona))"

section \<open>The script\<close>

text \<open>
  The statements at module level, from the two tables on (lines 56 to 59, 85 to 91, 122
  to 124 and 172 to 178): the stages that ran, in order, and how the run ended. The
  charts of lines 126 to 147 draw the topic statistics and the trend window and change
  neither; they are left out.
\<close>

datatype stage = Analyzer | Insight_Generator | Persona_Identifier | Recommendation_Generator

datatype outcome = Exited string | Raised error | Printed "string list"

definition pipeline ::
  "(string list \<Rightarrow> nat list) \<Rightarrow> (string option list \<Rightarrow> string \<Rightarrow> int option) \<Rightarrow> bool \<Rightarrow>
   'c frame \<Rightarrow> string option frame \<Rightarrow> stage list \<times> outcome" where
  "pipeline argsort parser numeric_only current_df historical_df =
     (if empty_df current_df \<or> empty_df historical_df
      then ([], Exited ''Error: One or both datasets are empty. Exiting the program.'')
      else
        (case analyze_performance_data argsort parser current_df historical_df of
           Inl e \<Rightarrow> ([Analyzer], Raised e)
         | Inr (topic_stats, recent_trends) \<Rightarrow>
             (if empty_df topic_stats
              then ([Analyzer], Exited ''No data available for topic performance analysis.'')
              else
                (case generate_insight_details topic_stats recent_trends of
                   Inl e \<Rightarrow> ([Analyzer, Insight_Generator], Raised e)
                 | Inr (weak_topics, improvement_trends) \<Rightarrow>
                     (case identify_student_persona numeric_only historical_df of
                        Inl e \<Rightarrow> ([Analyzer, Insight_Generator, Persona_Identifier], Raised e)
                      | Inr student_persona \<Rightarrow>
                          (case generate_recommendations weak_topics student_persona of
                             Inl e \<Rightarrow>
                               ([Analyzer, Insight_Generator, Persona_Identifier,
                                 Recommendation_Generator], Raised e)
                           | Inr recommendations \<Rightarrow>
                               ([Analyzer, Insight_Generator, Persona_Identifier,
                                 Recommendation_Generator], Printed recommendations)))))))"

section \<open>numpy's default argsort\<close>

text \<open>
  \<^verbatim>\<open>sort_values\<close> is called without \<^verbatim>\<open>kind\<close>, so numpy sorts with its default
  \<^verbatim>\<open>'quicksort'\<close>, which pandas and numpy document as not stable. The model below
  follows numpy's \<^verbatim>\<open>aquicksort\<close>, an introsort on the array \<open>ts\<close> of positions
  (\<^verbatim>\<open>tosort\<close>) into the values \<open>v\<close>: a range of more than 17 entries is partitioned
  around the median of its first, middle and last entry, a shorter one is sorted by
  insertion, and a range popped from the stack with an exhausted depth counter goes to
  heapsort. The pointers \<^verbatim>\<open>pl\<close>, \<^verbatim>\<open>pr\<close>, \<^verbatim>\<open>pm\<close>, \<^verbatim>\<open>pi\<close>, \<^verbatim>\<open>pj\<close>, \<^verbatim>\<open>pk\<close> are
  the positions \<open>p_l\<close>, \<open>p_r\<close>, \<open>p_m\<close>, \<open>p_i\<close>, \<open>p_j\<close>, \<open>p_k\<close>.

  The two scans of the partition step have no bound in the C code: the pivot parked at
  \<^verbatim>\<open>pr - 1\<close> stops the upward scan and the median-of-three entry at \<^verbatim>\<open>pl\<close> stops
  the downward one. The bounds \<open>hi\<close> and \<open>lo\<close> are these two positions.
\<close>

definition swap :: "nat list \<Rightarrow> nat \<Rightarrow> nat \<Rightarrow> nat list" where
  "swap ts i j = (ts[i := ts ! j])[j := ts ! i]"

function scan_up :: "'a::linorder list \<Rightarrow> nat list \<Rightarrow> 'a \<Rightarrow> nat \<Rightarrow> nat \<Rightarrow> nat" where
  "scan_up v ts vp p_i hi =
     (if p_i < hi \<and> v ! (ts ! p_i) < vp then scan_up v ts vp (Suc p_i) hi else p_i)"
  by pat_completeness auto
termination
  by (relation "measure (\<lambda>(v, ts, vp, p_i, hi). hi - p_i)") auto

function scan_down :: "'a::linorder list \<Rightarrow> nat list \<Rightarrow> 'a \<Rightarrow> nat \<Rightarrow> nat \<Rightarrow> nat" where
  "scan_down v ts vp p_j lo =
     (if lo < p_j \<and> vp < v ! (ts ! p_j) then scan_down v ts vp (p_j - 1) lo else p_j)"
  by pat_completeness auto
termination
  by (relation "measure (\<lambda>(v, ts, vp, p_j, lo). p_j)") auto

declare scan_up.simps [simp del] scan_down.simps [simp del]

lemma scan_up_ge: "p_i \<le> scan_up v ts vp p_i hi"
  by (induction v ts vp p_i hi rule: scan_up.induct) (subst scan_up.simps, auto)

lemma scan_up_le: "scan_up v ts vp p_i hi \<le> max p_i hi"
  by (induction v ts vp p_i hi rule: scan_up.induct) (subst scan_up.simps, auto)

lemma scan_down_le: "scan_down v ts vp p_j lo \<le> p_j"
  by (induction v ts vp p_j lo rule: scan_down.induct) (subst scan_down.simps, auto)

function partition_loop ::
  "'a::linorder list \<Rightarrow> nat list \<Rightarrow> 'a \<Rightarrow> nat \<Rightarrow> nat \<Rightarrow> nat \<Rightarrow> nat \<Rightarrow> nat list \<times> nat" where
  "partition_loop v ts vp p_i p_j lo hi =
     (let p_i' = scan_up v ts vp (Suc p_i) hi;
          p_j' = scan_down v ts vp (p_j - 1) lo
      in if p_j' \<le> p_i' then (ts, p_i')
         else partition_loop v (swap ts p_i' p_j') vp p_i' p_j' lo hi)"
  by pat_completeness auto
termination
proof (relation "measure (\<lambda>(v, ts, vp, p_i, p_j, lo, hi). p_j - p_i)", goal_cases)
  case 1
  then show ?case by simp
next
  case (2 v ts vp p_i p_j lo hi p_i' p_j')
  have "Suc p_i \<le> p_i'" using 2(1) scan_up_ge[of "Suc p_i" v ts vp hi] by simp
  moreover have "p_j' \<le> p_j - 1" using 2(2) scan_down_le[of v ts vp "p_j - 1" lo] by simp
  ultimately show ?case using 2(3) by simp
qed

declare partition_loop.simps [simp del]

lemma partition_loop_gt: "p_i < snd (partition_loop v ts vp p_i p_j lo hi)"
proof (induction v ts vp p_i p_j lo hi rule: partition_loop.induct)
  case (1 v ts vp p_i p_j lo hi)
  let ?p_i = "scan_up v ts vp (Suc p_i) hi"
  let ?p_j = "scan_down v ts vp (p_j - 1) lo"
  have a: "p_i < ?p_i" using scan_up_ge[of "Suc p_i" v ts vp hi] by simp
  show ?case
  proof (cases "?p_j \<le> ?p_i")
    case True
    then show ?thesis using a by (subst partition_loop.simps) (simp add: Let_def)
  next
    case False
    from 1[OF refl refl False] a False
    show ?thesis by (subst partition_loop.simps) (simp add: Let_def)
  qed
qed

lemma partition_loop_le:
  "Suc p_i \<le> hi \<Longrightarrow> p_j \<le> hi \<Longrightarrow> snd (partition_loop v ts vp p_i p_j lo hi) \<le> hi"
proof (induction v ts vp p_i p_j lo hi rule: partition_loop.induct)
  case (1 v ts vp p_i p_j lo hi)
  let ?p_i = "scan_up v ts vp (Suc p_i) hi"
  let ?p_j = "scan_down v ts vp (p_j - 1) lo"
  have a: "?p_i \<le> hi" using scan_up_le[of v ts vp "Suc p_i" hi] 1(2) by simp
  have b: "?p_j \<le> hi" using scan_down_le[of v ts vp "p_j - 1" lo] 1(3) by simp
  show ?case
  proof (cases "?p_j \<le> ?p_i")
    case True
    then show ?thesis using a by (subst partition_loop.simps) (simp add: Let_def)
  next
    case False
    then have "Suc ?p_i \<le> hi" using b by simp
    from 1(1)[OF refl refl False this b] False
    show ?thesis by (subst partition_loop.simps) (simp add: Let_def)
  qed
qed

definition aquicksort_partition :: "'a::linorder list \<Rightarrow> nat list \<Rightarrow> nat \<Rightarrow> nat \<Rightarrow> nat list \<times> nat" where
  "aquicksort_partition v ts p_l p_r =
     (let p_m = p_l + (p_r - p_l) div 2;
          ts = (if v ! (ts ! p_m) < v ! (ts ! p_l) then swap ts p_m p_l else ts);
          ts = (if v ! (ts ! p_r) < v ! (ts ! p_m) then swap ts p_r p_m else ts);
          ts = (if v ! (ts ! p_m) < v ! (ts ! p_l) then swap ts p_m p_l else ts);
          vp = v ! (ts ! p_m);
          p_j = p_r - 1;
          ts = swap ts p_m p_j;
          (ts, p_i) = partition_loop v ts vp p_l p_j p_l p_j;
          p_k = p_r - 1
      in (swap ts p_i p_k, p_i))"

lemma aquicksort_partition_snd:
  "\<exists>ts' vp. snd (aquicksort_partition v ts p_l p_r)
             = snd (partition_loop v ts' vp p_l (p_r - 1) p_l (p_r - 1))"
  by (simp add: aquicksort_partition_def Let_def case_prod_beta) blast

lemma aquicksort_partition_bounds:
  assumes "p_l + 16 < p_r"
  shows "p_l < snd (aquicksort_partition v ts p_l p_r)"
    and "snd (aquicksort_partition v ts p_l p_r) < p_r"
proof -
  obtain ts' vp where e: "snd (aquicksort_partition v ts p_l p_r)
             = snd (partition_loop v ts' vp p_l (p_r - 1) p_l (p_r - 1))"
    using aquicksort_partition_snd by blast
  show "p_l < snd (aquicksort_partition v ts p_l p_r)"
    unfolding e by (rule partition_loop_gt)
  have "snd (partition_loop v ts' vp p_l (p_r - 1) p_l (p_r - 1)) \<le> p_r - 1"
    using assms by (intro partition_loop_le) simp_all
  then show "snd (aquicksort_partition v ts p_l p_r) < p_r"
    unfolding e using assms by simp
qed

text \<open>The insertion sort of a short range.\<close>

function insertion_shift ::
  "'a::linorder list \<Rightarrow> nat list \<Rightarrow> 'a \<Rightarrow> nat \<Rightarrow> nat \<Rightarrow> nat list \<times> nat" where
  "insertion_shift v ts vp p_j p_l =
     (if p_l < p_j \<and> vp < v ! (ts ! (p_j - 1))
      then insertion_shift v (ts[p_j := ts ! (p_j - 1)]) vp (p_j - 1) p_l
      else (ts, p_j))"
  by pat_completeness auto
termination
  by (relation "measure (\<lambda>(v, ts, vp, p_j, p_l). p_j)") auto

declare insertion_shift.simps [simp del]

definition insertion_step :: "'a::linorder list \<Rightarrow> nat \<Rightarrow> nat list \<Rightarrow> nat \<Rightarrow> nat list" where
  "insertion_step v p_l ts p_i =
     (let vi = ts ! p_i; vp = v ! vi; (ts, p_j) = insertion_shift v ts vp p_i p_l
      in ts[p_j := vi])"

definition insertion_sort :: "'a::linorder list \<Rightarrow> nat list \<Rightarrow> nat \<Rightarrow> nat \<Rightarrow> nat list" where
  "insertion_sort v ts p_l p_r = foldl (insertion_step v p_l) ts [Suc p_l..<Suc p_r]"

text \<open>
  \<^verbatim>\<open>aheapsort\<close> on the \<open>n\<close> entries from \<open>p_l\<close> on, with the 1-based heap indices of
  the C code (\<^verbatim>\<open>a = tosort - 1\<close>); the index \<open>j\<close> of a child is never 0.
\<close>

definition heap_get :: "nat list \<Rightarrow> nat \<Rightarrow> nat \<Rightarrow> nat" where
  "heap_get ts p_l i = ts ! (p_l + i - 1)"

definition heap_set :: "nat list \<Rightarrow> nat \<Rightarrow> nat \<Rightarrow> nat \<Rightarrow> nat list" where
  "heap_set ts p_l i x = ts[p_l + i - 1 := x]"

function sift ::
  "'a::linorder list \<Rightarrow> nat list \<Rightarrow> nat \<Rightarrow> nat \<Rightarrow> nat \<Rightarrow> nat \<Rightarrow> nat \<Rightarrow> nat list \<times> nat" where
  "sift v ts p_l n tmp i j =
     (if 0 < j \<and> j \<le> n then
        (let j = (if j < n \<and> v ! heap_get ts p_l j < v ! heap_get ts p_l (j + 1)
                  then j + 1 else j)
         in if v ! tmp < v ! heap_get ts p_l j
            then sift v (heap_set ts p_l i (heap_get ts p_l j)) p_l n tmp j (j + j)
            else (ts, i))
      else (ts, i))"
  by pat_completeness auto
termination
  by (relation "measure (\<lambda>(v, ts, p_l, n, tmp, i, j). Suc n - j)") auto

declare sift.simps [simp del]

definition heapify_step :: "'a::linorder list \<Rightarrow> nat \<Rightarrow> nat \<Rightarrow> nat list \<Rightarrow> nat \<Rightarrow> nat list" where
  "heapify_step v p_l n ts l =
     (let tmp = heap_get ts p_l l; (ts, i) = sift v ts p_l n tmp l (l + l)
      in heap_set ts p_l i tmp)"

definition extract_step :: "'a::linorder list \<Rightarrow> nat \<Rightarrow> nat list \<Rightarrow> nat \<Rightarrow> nat list" where
  "extract_step v p_l ts n =
     (let tmp = heap_get ts p_l n;
          ts = heap_set ts p_l n (heap_get ts p_l 1);
          (ts, i) = sift v ts p_l (n - 1) tmp 1 2
      in heap_set ts p_l i tmp)"

definition aheapsort :: "'a::linorder list \<Rightarrow> nat list \<Rightarrow> nat \<Rightarrow> nat \<Rightarrow> nat list" where
  "aheapsort v ts p_l n =
     (let ts = foldl (heapify_step v p_l n) ts (rev [1..<Suc (n div 2)])
      in foldl (extract_step v p_l) ts (rev [2..<Suc n]))"

text \<open>
  One range of the work list. The C loop pushes the larger part of a partition on its
  stack and goes on with the smaller one; the parts are disjoint, so the order in which
  they are sorted does not change the result. The depth counter is tested only at the
  top of the outer loop, that is at the start and for a range popped from the stack
  (\<open>from_top\<close>).
\<close>

function aquicksort_range ::
  "'a::linorder list \<Rightarrow> nat list \<Rightarrow> nat \<Rightarrow> nat \<Rightarrow> int \<Rightarrow> bool \<Rightarrow> nat list" where
  "aquicksort_range v ts p_l p_r cdepth from_top =
     (if from_top \<and> cdepth < 0 then aheapsort v ts p_l (Suc p_r - p_l)
      else if p_l + 16 < p_r then
        (let (ts, p_i) = aquicksort_partition v ts p_l p_r;
             cdepth = cdepth - 1
         in if p_i - p_l < p_r - p_i
            then aquicksort_range v (aquicksort_range v ts p_l (p_i - 1) cdepth False)
                   (p_i + 1) p_r cdepth True
            else aquicksort_range v (aquicksort_range v ts (p_i + 1) p_r cdepth False)
                   p_l (p_i - 1) cdepth True)
      else insertion_sort v ts p_l p_r)"
  by pat_completeness auto
termination
proof (relation "measure (\<lambda>(v, ts, p_l, p_r, cdepth, from_top). p_r - p_l)", goal_cases)
  case 1
  then show ?case by simp
next
  case (2 v ts p_l p_r cdepth from_top x xa y xb)
  then have y: "y = snd (aquicksort_partition v ts p_l p_r)" and big: "p_l + 16 < p_r"
    by (metis snd_conv, simp)
  have "p_l < y" "y < p_r"
    unfolding y by (rule aquicksort_partition_bounds[OF big])+
  then show ?case by simp
next
  case (3 v ts p_l p_r cdepth from_top x xa y xb)
  then have y: "y = snd (aquicksort_partition v ts p_l p_r)" and big: "p_l + 16 < p_r"
    by (metis snd_conv, simp)
  have "p_l < y" "y < p_r"
    unfolding y by (rule aquicksort_partition_bounds[OF big])+
  then show ?case by simp
next
  case (4 v ts p_l p_r cdepth from_top x xa y xb)
  then have y: "y = snd (aquicksort_partition v ts p_l p_r)" and big: "p_l + 16 < p_r"
    by (metis snd_conv, simp)
  have "p_l < y" "y < p_r"
    unfolding y by (rule aquicksort_partition_bounds[OF big])+
  then show ?case by simp
next
  case (5 v ts p_l p_r cdepth from_top x xa y xb)
  then have y: "y = snd (aquicksort_partition v ts p_l p_r)" and big: "p_l + 16 < p_r"
    by (metis snd_conv, simp)
  have "p_l < y" "y < p_r"
    unfolding y by (rule aquicksort_partition_bounds[OF big])+
  then show ?case by simp
qed

declare aquicksort_range.simps [simp del]

text \<open>\<^verbatim>\<open>npy_get_msb\<close> and the entry point: the positions start as \<open>0, 1, \<dots>\<close>.\<close>

fun get_msb :: "nat \<Rightarrow> nat" where
  "get_msb n = (if n < 2 then 0 else Suc (get_msb (n div 2)))"

declare get_msb.simps [simp del]

definition np_argsort :: "'a::linorder list \<Rightarrow> nat list" where
  "np_argsort v =
     (let num = length v
      in aquicksort_range v [0..<num] 0 (num - 1) (2 * int (get_msb num)) True)"

section \<open>The tables as objects\<close>

text \<open>
  The script keeps its tables in variables, and one statement of the Analyzer writes
  into a table: \<^verbatim>\<open>recent_trends['submission_time'] = ...\<close>. To see which table that
  is, the tables live in a store, a list of objects addressed by position; a variable
  holds an address, and a pandas operation that returns a new table allocates it at the
  end of the store. \<^verbatim>\<open>sort_values\<close>, \<^verbatim>\<open>head\<close>, the aggregation and the selection by a
  mask all return new tables; the column assignment alone changes the object it is
  applied to. The stages below do the computations of the sections above on the tables
  they read from the store.
\<close>

datatype obj = Raw "string option frame" | Stamped "int option frame" | Stats "unit frame"

type_synonym store = "obj list"

definition alloc :: "store \<Rightarrow> obj \<Rightarrow> nat \<times> store" where
  "alloc st x = (length st, st @ [x])"

text \<open>
  \<^verbatim>\<open>df['submission_time'] = pd.to_datetime(df['submission_time'], errors='coerce')\<close>
  on the object at \<open>ref\<close>.
\<close>

definition assign_datetime ::
  "(string option list \<Rightarrow> string \<Rightarrow> int option) \<Rightarrow> store \<Rightarrow> nat \<Rightarrow> store" where
  "assign_datetime parser st ref =
     (case st ! ref of
        Raw df \<Rightarrow>
          st[ref := Stamped (set_submission_time df
                              (to_datetime parser (map submission_time (rows df))))]
      | _ \<Rightarrow> st)"

definition analyze_performance_data_st ::
  "(string list \<Rightarrow> nat list) \<Rightarrow> (string option list \<Rightarrow> string \<Rightarrow> int option) \<Rightarrow>
   store \<Rightarrow> nat \<Rightarrow> nat \<Rightarrow> (error + nat \<times> nat) \<times> store" where
  "analyze_performance_data_st argsort parser st current_df historical_df =
     (case st ! historical_df of
        Raw hist \<Rightarrow>
          (if \<not> set required_cols \<subseteq> set (columns hist) then
             (let (a, st) = alloc st (Stats empty_frame);
                  (b, st) = alloc st (Stamped empty_frame)
              in (Inr (a, b), st))
           else
             (case groupby_topic hist of
                Inl e \<Rightarrow> (Inl e, st)
              | Inr groups \<Rightarrow>
                  (let (topic_stats, st) = alloc st (Stats (agg_mean groups))
                   in (case sort_values argsort hist of
                         Inl e \<Rightarrow> (Inl e, st)
                       | Inr sorted_df \<Rightarrow>
                           (let (sorted_ref, st) = alloc st (Raw sorted_df);
                                (recent_trends, st) = alloc st (Raw (head 5 sorted_df));
                                st = assign_datetime parser st recent_trends
                            in (Inr (topic_stats, recent_trends), st))))))
      | _ \<Rightarrow> (Inl TypeError, st))"

definition generate_insight_details_st ::
  "store \<Rightarrow> nat \<Rightarrow> nat \<Rightarrow> (error + nat \<times> nat) \<times> store" where
  "generate_insight_details_st st topic_stats recent_trends =
     (case (st ! topic_stats, st ! recent_trends) of
        (Stats ts, Stamped rt) \<Rightarrow>
          (case generate_insight_details ts rt of
             Inl e \<Rightarrow> (Inl e, st)
           | Inr (weak, imp) \<Rightarrow>
               (let (weak_topics, st) = alloc st (Stats weak);
                    (improvement_trends, st) = alloc st (Stamped imp)
                in (Inr (weak_topics, improvement_trends), st)))
      | _ \<Rightarrow> (Inl TypeError, st))"

definition identify_student_persona_st :: "bool \<Rightarrow> store \<Rightarrow> nat \<Rightarrow> (error + persona) \<times> store" where
  "identify_student_persona_st numeric_only st historical_df =
     (case st ! historical_df of
        Raw hist \<Rightarrow> (identify_student_persona numeric_only hist, st)
      | _ \<Rightarrow> (Inl TypeError, st))"

definition generate_recommendations_st ::
  "store \<Rightarrow> nat \<Rightarrow> persona \<Rightarrow> (error + string list) \<times> store" where
  "generate_recommendations_st st weak_topics student_persona =
     (case st ! weak_topics of
        Stats weak \<Rightarrow> (generate_recommendations weak student_persona, st)
      | _ \<Rightarrow> (Inl TypeError, st))"

definition is_empty_obj :: "obj \<Rightarrow> bool" where
  "is_empty_obj x = (case x of Raw df \<Rightarrow> empty_df df | Stamped df \<Rightarrow> empty_df df
                     | Stats df \<Rightarrow> empty_df df)"

definition pipeline_st ::
  "(string list \<Rightarrow> nat list) \<Rightarrow> (string option list \<Rightarrow> string \<Rightarrow> int option) \<Rightarrow> bool \<Rightarrow>
   store \<Rightarrow> nat \<Rightarrow> nat \<Rightarrow> (stage list \<times> outcome) \<times> store" where
  "pipeline_st argsort parser numeric_only st current_df historical_df =
     (if is_empty_obj (st ! current_df) \<or> is_empty_obj (st ! historical_df)
      then (([], Exited ''Error: One or both datasets are empty. Exiting the program.''), st)
      else
        (case analyze_performance_data_st argsort parser st current_df historical_df of
           (Inl e, st) \<Rightarrow> (([Analyzer], Raised e), st)
         | (Inr (topic_stats, recent_trends), st) \<Rightarrow>
             (if is_empty_obj (st ! topic_stats)
              then (([Analyzer], Exited ''No data available for topic performance analysis.''), st)
              else
                (case generate_insight_details_st st topic_stats recent_trends of
                   (Inl e, st) \<Rightarrow> (([Analyzer, Insight_Generator], Raised e), st)
                 | (Inr (weak_topics, improvement_trends), st) \<Rightarrow>
                     (case identify_student_persona_st numeric_only st historical_df of
                        (Inl e, st) \<Rightarrow>
                          (([Analyzer, Insight_Generator, Persona_Identifier], Raised e), st)
                      | (Inr student_persona, st) \<Rightarrow>
                          (case generate_recommendations_st st weak_topics student_persona of
                             (Inl e, st) \<Rightarrow>
                               (([Analyzer, Insight_Generator, Persona_Identifier,
                                  Recommendation_Generator], Raised e), st)
                           | (Inr recommendations, st) \<Rightarrow>
                               (([Analyzer, Insight_Generator, Persona_Identifier,
                                  Recommendation_Generator], Printed recommendations), st)))))))"

section \<open>Reference definitions and example tables\<close>

text \<open>
  The improvement events as the specification words them: the rows at the second to the
  last position of the window whose accuracy minus the accuracy one row above is
  strictly positive. A difference with a NaN operand is NaN, which is not positive.
\<close>

definition improves :: "num \<Rightarrow> num \<Rightarrow> bool" where
  "improves prev cur = (case (prev, cur) of (Some a, Some b) \<Rightarrow> 0 < b - a | _ \<Rightarrow> False)"

definition spec_improvement_events :: "'t submission list \<Rightarrow> 't submission list" where
  "spec_improvement_events w =
     map (\<lambda>i. w ! i)
       (filter (\<lambda>i. improves (accuracy (w ! (i - 1))) (accuracy (w ! i))) [1..<length w])"

text \<open>A trend window with the accuracies 0.2, 0.5, 0.3, 0.3, 0.9 and topic statistics.\<close>

definition trend_example :: "int option frame" where
  "trend_example =
     \<lparr>columns = [Topic, Accuracy, Difficulty, Score, Submission_time],
      rows = map (\<lambda>(a, t). \<lparr>topic = Some ''A'', accuracy = Some a, difficulty = Some 1,
                              score = Some 10, submission_time = Some t\<rparr>)
               [(2 / 10, 50), (5 / 10, 40), (3 / 10, 30), (3 / 10, 20), (9 / 10, 10)]\<rparr>"

definition stats_example :: "unit frame" where
  "stats_example =
     \<lparr>columns = [Topic, Accuracy, Difficulty, Score],
      rows = [\<lparr>topic = Some ''A'', accuracy = Some (9 / 10), difficulty = Some 1,
               score = Some 10, submission_time = ()\<rparr>,
              \<lparr>topic = Some ''B'', accuracy = Some (4 / 10), difficulty = Some 2,
               score = Some 5, submission_time = ()\<rparr>,
              \<lparr>topic = Some ''C'', accuracy = Some (6 / 10), difficulty = Some 2,
               score = Some 5, submission_time = ()\<rparr>]\<rparr>"

text \<open>
  A stable argsort (numpy's \<^verbatim>\<open>kind='stable'\<close>), a parser for the examples, and tables
  that lack columns.
\<close>

definition stable_argsort :: "string list \<Rightarrow> nat list" where
  "stable_argsort xs = sort_key (\<lambda>i. xs ! i) [0..<length xs]"

definition example_parser :: "string option list \<Rightarrow> string \<Rightarrow> int option" where
  "example_parser col s = (if s = ''n/a'' then None else Some (int (length s)))"

definition no_time_example :: "string option frame" where
  "no_time_example =
     \<lparr>columns = [Topic, Accuracy, Difficulty, Score],
      rows = [\<lparr>topic = Some ''A'', accuracy = Some (9 / 10), difficulty = Some 1,
               score = Some 10, submission_time = None\<rparr>]\<rparr>"

definition no_topic_example :: "string option frame" where
  "no_topic_example =
     \<lparr>columns = [Accuracy, Score],
      rows = [\<lparr>topic = None, accuracy = Some (9 / 10), difficulty = None,
               score = Some 10, submission_time = None\<rparr>,
              \<lparr>topic = None, accuracy = Some (1 / 2), difficulty = None,
               score = Some 5, submission_time = None\<rparr>]\<rparr>"

definition no_accuracy_example :: "string option frame" where
  "no_accuracy_example =
     \<lparr>columns = [Topic, Score],
      rows = [\<lparr>topic = Some ''A'', accuracy = None, difficulty = None,
               score = Some 10, submission_time = None\<rparr>]\<rparr>"


text \<open>A historical table whose rows are in no particular order.\<close>

definition mixed_order_example :: "string option frame" where
  "mixed_order_example =
     \<lparr>columns = [Topic, Accuracy, Difficulty, Score, Submission_time],
      rows = [\<lparr>topic = Some ''B'', accuracy = Some (3 / 10), difficulty = Some 2,
               score = Some 3, submission_time = Some ''2025-01-03''\<rparr>,
              \<lparr>topic = Some ''A'', accuracy = Some (9 / 10), difficulty = Some 1,
               score = Some 9, submission_time = Some ''2025-01-05''\<rparr>,
              \<lparr>topic = Some ''B'', accuracy = Some (5 / 10), difficulty = Some 2,
               score = Some 5, submission_time = Some ''n/a''\<rparr>,
              \<lparr>topic = Some ''A'', accuracy = Some (9 / 10), difficulty = Some 1,
               score = Some 9, submission_time = None\<rparr>,
              \<lparr>topic = Some ''0'', accuracy = Some (1 / 10), difficulty = Some 1,
               score = Some 1, submission_time = Some ''2025-01-04''\<rparr>]\<rparr>"

text \<open>The rows of a table in the order that \<open>sort_values\<close> gives them.\<close>

definition sorted_rows :: "(string list \<Rightarrow> nat list) \<Rightarrow> string option frame \<Rightarrow> string option submission list" where
  "sorted_rows argsort df =
     map (\<lambda>i. rows df ! i) (nargsort argsort (map submission_time (rows df)))"




text \<open>
  The trend window as the specification words it: the first five rows of the table
  sorted by \<open>submission_time\<close> descending, rows with equal times in their original
  order, each time parsed or replaced by NaT. A missing time is the least value of the
  order on \<open>string option\<close>, so it sorts last.
\<close>

definition spec_normalised ::
  "(string option list \<Rightarrow> string \<Rightarrow> int option) \<Rightarrow> string option list \<Rightarrow>
   string option submission \<Rightarrow> int option submission" where
  "spec_normalised parser ctx r =
     \<lparr>topic = topic r, accuracy = accuracy r, difficulty = difficulty r, score = score r,
      submission_time = (case submission_time r of None \<Rightarrow> None | Some s \<Rightarrow> parser ctx s)\<rparr>"

definition spec_trend_window ::
  "(string option list \<Rightarrow> string \<Rightarrow> int option) \<Rightarrow> string option frame \<Rightarrow> int option submission list" where
  "spec_trend_window parser df =
     (let w = take 5 (rev (sort_key submission_time (rev (rows df))))
      in map (spec_normalised parser (map submission_time w)) w)"

text \<open>Twenty submissions of one day, told apart by their scores 0 to 19.\<close>

definition tie_row :: "nat \<Rightarrow> string option submission" where
  "tie_row i = \<lparr>topic = Some ''Math'', accuracy = Some (real i / 20), difficulty = Some 1,
               score = Some (real i), submission_time = Some ''2025-01-17''\<rparr>"

definition ties_example :: "string option frame" where
  "ties_example =
     \<lparr>columns = [Topic, Accuracy, Difficulty, Score, Submission_time],
      rows = map tie_row [0..<20]\<rparr>"

text \<open>
  A store extends another when it is at least as long and agrees with it on every
  address of the shorter one. A store with a current and a historical table.
\<close>

definition extends :: "store \<Rightarrow> store \<Rightarrow> bool" where
  "extends st st' \<longleftrightarrow> length st \<le> length st' \<and> (\<forall>a < length st. st' ! a = st ! a)"

definition store_example :: store where
  "store_example = [Raw no_topic_example, Raw mixed_order_example]"

section \<open>The Insight Generator selects by threshold and by difference\<close>

lemma num_gt_sub: "num_gt (num_sub x p) 0 = improves p x"
  by (cases x; cases p) (auto simp: improves_def)


lemma upt_0_Suc_shift: "[0..<Suc n] = 0 # map Suc [0..<n]"
  by (simp only: map_Suc_upt upt_conv_Cons[OF zero_less_Suc])

lemma select_by_index:
  "length m = length xs \<Longrightarrow>
   map fst (filter snd (zip xs m)) = map ((!) xs) (filter ((!) m) [0..<length xs])"
proof (induction xs arbitrary: m)
  case Nil
  then show ?case by simp
next
  case (Cons x xs)
  then obtain b m' where m: "m = b # m'" and len: "length m' = length xs"
    by (cases m) auto
  show ?case
    by (simp add: m upt_0_Suc_shift filter_map o_def Cons.IH[OF len] del: upt_Suc)
qed

lemma length_diff_from [simp]: "length (diff_from p xs) = length xs"
  by (induction xs arbitrary: p) auto

lemma length_diff [simp]: "length (diff xs) = length xs"
  by (simp add: diff_def split: list.splits)

lemma nth_diff_from:
  "i < length xs \<Longrightarrow> diff_from p xs ! i = num_sub (xs ! i) ((p # xs) ! i)"
  by (induction xs arbitrary: p i) (auto simp: nth_Cons split: nat.splits)

lemma nth_diff:
  "i < length xs \<Longrightarrow> diff xs ! i = (if i = 0 then None else num_sub (xs ! i) (xs ! (i - 1)))"
  by (cases xs) (auto simp: diff_def nth_diff_from nth_Cons split: nat.splits)

lemma filter_upt_from_1:
  "filter (\<lambda>i. 0 < i \<and> P i) [0..<n] = filter P [1..<n]"
proof (cases n)
  case 0
  then show ?thesis by simp
next
  case (Suc k)
  have "filter (\<lambda>i. 0 < i \<and> P i) [Suc 0..<Suc k] = filter P [Suc 0..<Suc k]"
    by (rule filter_cong) auto
  then show ?thesis
    by (simp add: Suc upt_conv_Cons[OF zero_less_Suc] del: upt_Suc)
qed

lemma select_rows_simps [simp]:
  "columns (select_rows df m) = columns df"
  "rows (select_rows df m) = map fst (filter snd (zip (rows df) m))"
  by (simp_all add: select_rows_def)

lemma improvement_rows:
  "map fst (filter snd (zip w (map (\<lambda>d. num_gt d 0) (diff (map accuracy w)))))
   = spec_improvement_events w"
proof -
  let ?m = "map (\<lambda>d. num_gt d 0) (diff (map accuracy w))"
  have "filter ((!) ?m) [0..<length w]
        = filter (\<lambda>i. 0 < i \<and> improves (accuracy (w ! (i - 1))) (accuracy (w ! i))) [0..<length w]"
    by (rule filter_cong) (auto simp: nth_diff num_gt_sub)
  also have "\<dots> = filter (\<lambda>i. improves (accuracy (w ! (i - 1))) (accuracy (w ! i))) [1..<length w]"
    by (rule filter_upt_from_1)
  finally have "filter ((!) ?m) [0..<length w]
        = filter (\<lambda>i. improves (accuracy (w ! (i - 1))) (accuracy (w ! i))) [1..<length w]" .
  moreover have "map fst (filter snd (zip w ?m)) = map ((!) w) (filter ((!) ?m) [0..<length w])"
    by (rule select_by_index) simp
  ultimately show ?thesis
    by (simp only: spec_improvement_events_def)
qed

lemma filter_zip_map: "map fst (filter snd (zip xs (map P xs))) = filter P xs"
  by (induction xs) auto

lemma insight_result:
  assumes "Accuracy \<in> set (columns topic_stats)" and "Accuracy \<in> set (columns recent_trends)"
  shows "generate_insight_details topic_stats recent_trends =
         Inr (select_rows topic_stats (map (\<lambda>r. num_lt (accuracy r) (6 / 10)) (rows topic_stats)),
              select_rows recent_trends
                (map (\<lambda>d. num_gt d 0) (diff (map accuracy (rows recent_trends)))))"
  using assms by (simp add: generate_insight_details_def Let_def)


text \<open>
  Claim C1. On every trend window the improvement events are exactly the rows at the
  second to the last position whose accuracy minus the accuracy of the row just above
  is strictly positive; the first row never qualifies, and a window of no or one row
  has no improvement event.
\<close>

theorem improvement_events_exact:
  assumes "Accuracy \<in> set (columns topic_stats)" and "Accuracy \<in> set (columns recent_trends)"
  shows "\<exists>weak imp. generate_insight_details topic_stats recent_trends = Inr (weak, imp)
           \<and> columns imp = columns recent_trends
           \<and> rows imp = spec_improvement_events (rows recent_trends)
           \<and> (length (rows recent_trends) \<le> 1 \<longrightarrow> rows imp = [])"
proof -
  have "length (rows recent_trends) \<le> 1 \<Longrightarrow> spec_improvement_events (rows recent_trends) = []"
    by (simp add: spec_improvement_events_def)
  then show ?thesis
    using insight_result[OF assms] by (simp add: improvement_rows)
qed

theorem improvement_events_exact_witness:
  "\<exists>weak imp. generate_insight_details stats_example trend_example = Inr (weak, imp)
     \<and> rows imp = [rows trend_example ! 1, rows trend_example ! 4]"
proof -
  from improvement_events_exact[of stats_example trend_example]
  obtain weak imp where
    h: "generate_insight_details stats_example trend_example = Inr (weak, imp)"
       "rows imp = spec_improvement_events (rows trend_example)"
    by (auto simp: stats_example_def trend_example_def)
  have "spec_improvement_events (rows trend_example)
        = [rows trend_example ! 1, rows trend_example ! 4]"
    by (simp add: trend_example_def spec_improvement_events_def improves_def
          upt_rec[of 1] upt_rec[of 2] upt_rec[of 3] upt_rec[of 4] upt_rec[of 5])
  with h show ?thesis by simp
qed


section \<open>Missing columns and the sentinel of the Persona Identifier\<close>

lemma empty_df_empty_frame [simp]: "empty_df empty_frame"
  by (simp add: empty_df_def empty_frame_def)

text \<open>
  Claim C3. On a historical table that lacks one of the five required columns the
  Analyzer returns two empty tables and raises nothing, and the script exits before the
  Insight Generator and the Persona Identifier run.
\<close>

theorem missing_columns_halt:
  assumes "\<not> set required_cols \<subseteq> set (columns historical_df)"
  shows "analyze_performance_data argsort parser current_df historical_df
           = Inr (empty_frame, empty_frame)
         \<and> empty_df (empty_frame :: unit frame) \<and> empty_df (empty_frame :: int option frame)
         \<and> (\<exists>msg. snd (pipeline argsort parser numeric_only current_df historical_df) = Exited msg)
         \<and> Insight_Generator \<notin> set (fst (pipeline argsort parser numeric_only current_df historical_df))
         \<and> Persona_Identifier \<notin> set (fst (pipeline argsort parser numeric_only current_df historical_df))"
  using assms by (simp add: analyze_performance_data_def pipeline_def)

theorem missing_columns_halt_witness:
  "analyze_performance_data stable_argsort example_parser no_topic_example no_time_example
     = Inr (empty_frame, empty_frame)
   \<and> pipeline stable_argsort example_parser False no_topic_example no_time_example
     = ([Analyzer], Exited ''No data available for topic performance analysis.'')"
proof -
  have h: "\<not> set required_cols \<subseteq> set (columns no_time_example)"
    by (simp add: required_cols_def no_time_example_def)
  have ne: "\<not> empty_df no_topic_example" "\<not> empty_df no_time_example"
    by (simp_all add: empty_df_def no_topic_example_def no_time_example_def)
  from missing_columns_halt[OF h, of stable_argsort example_parser no_topic_example False]
  have a: "analyze_performance_data stable_argsort example_parser no_topic_example no_time_example
     = Inr (empty_frame, empty_frame)" by simp
  then show ?thesis using ne by (simp add: pipeline_def)
qed

text \<open>
  Claim C10. The guard of the Persona Identifier looks at emptiness and at the accuracy
  column only: on a table with rows and an accuracy column but no topic column it does
  not return the sentinel, and grouping by topic raises \<open>KeyError\<close>.
\<close>

theorem persona_guard_misses_topic:
  assumes "\<not> empty_df historical_df" and "Accuracy \<in> set (columns historical_df)"
    and "Topic \<notin> set (columns historical_df)"
  shows "identify_student_persona numeric_only historical_df = Inl (KeyError Topic)"
  using assms by (simp add: identify_student_persona_def groupby_reduce_def groupby_topic_def)

theorem persona_guard_misses_topic_witness:
  "\<not> empty_df no_topic_example \<and> Accuracy \<in> set (columns no_topic_example)
   \<and> Topic \<notin> set (columns no_topic_example)
   \<and> identify_student_persona True no_topic_example = Inl (KeyError Topic)"
proof -
  have h: "\<not> empty_df no_topic_example" "Accuracy \<in> set (columns no_topic_example)"
    "Topic \<notin> set (columns no_topic_example)"
    by (simp_all add: empty_df_def no_topic_example_def)
  from persona_guard_misses_topic[OF h] h show ?thesis by simp
qed

lemma maintain_not_fallback: "maintain_line c \<noteq> fallback"
  by (simp add: maintain_line_def fallback_def)

text \<open>
  Claim C6. On a historical table that is empty or has no accuracy column the Persona
  Identifier returns the sentinel string. The Recommendation Generator tells it from a
  structured result: its list ends with the fallback line, whereas the list for a
  structured result ends with the line on the consistent topic, and the two lists differ.
\<close>

theorem persona_sentinel:
  assumes "empty_df historical_df \<or> Accuracy \<notin> set (columns historical_df)"
  shows "identify_student_persona numeric_only historical_df
           = Inr (Insufficient ''Insufficient data to analyze student persona.'')
         \<and> (\<forall>weak msg rs. generate_recommendations weak (Insufficient msg) = Inr rs \<longrightarrow>
               last rs = fallback
               \<and> (\<forall>c t rs'. generate_recommendations weak (Persona c t) = Inr rs' \<longrightarrow>
                     last rs' = maintain_line c \<and> last rs' \<noteq> fallback \<and> rs' \<noteq> rs))"
  using assms
  by (auto simp: identify_student_persona_def generate_recommendations_def persona_lines_def
        maintain_not_fallback split: sum.splits)

theorem persona_sentinel_witness:
  "identify_student_persona False (empty_frame :: string option frame)
     = Inr (Insufficient ''Insufficient data to analyze student persona.'')
   \<and> identify_student_persona False no_accuracy_example
     = Inr (Insufficient ''Insufficient data to analyze student persona.'')
   \<and> generate_recommendations stats_example
        (Insufficient ''Insufficient data to analyze student persona.'')
      \<noteq> generate_recommendations stats_example (Persona (Some ''A'') (Some ''A''))"
proof -
  have h1: "empty_df (empty_frame :: string option frame)
            \<or> Accuracy \<notin> set (columns (empty_frame :: string option frame))"
    by simp
  have h2: "empty_df no_accuracy_example \<or> Accuracy \<notin> set (columns no_accuracy_example)"
    by (simp add: no_accuracy_example_def)
  have ok: "\<exists>rs. generate_recommendations stats_example
        (Insufficient ''Insufficient data to analyze student persona.'') = Inr rs"
    by (simp add: generate_recommendations_def weak_topic_lines_def stats_example_def empty_df_def)
  from persona_sentinel[OF h1, of False] persona_sentinel[OF h2, of False] ok
  show ?thesis by (metis)
qed

section \<open>The Recommendation Generator\<close>








section \<open>The order of the topic statistics\<close>

lemma head_simps [simp]:
  "columns (head n df) = columns df" "rows (head n df) = take n (rows df)"
  by (simp_all add: head_def)

lemma set_submission_time_columns [simp]:
  "Submission_time \<in> set (columns df) \<Longrightarrow> columns (set_submission_time df vs) = columns df"
  by (simp add: set_submission_time_def)

lemma agg_mean_simps [simp]:
  "columns (agg_mean groups) = [Topic, Accuracy, Difficulty, Score]"
  "map topic (rows (agg_mean groups)) = map (Some \<circ> fst) groups"
  by (auto simp: agg_mean_def)

lemma analyze_result:
  assumes "set required_cols \<subseteq> set (columns historical_df)"
  shows "analyze_performance_data argsort parser current_df historical_df =
         Inr (agg_mean (map (\<lambda>k. (k, group_rows historical_df k)) (group_keys historical_df)),
              set_submission_time
                (historical_df\<lparr>rows := take 5 (sorted_rows argsort historical_df)\<rparr>)
                (to_datetime parser
                   (map submission_time (take 5 (sorted_rows argsort historical_df)))))"
  using assms
  by (simp add: analyze_performance_data_def groupby_topic_def sort_values_def Let_def
        required_cols_def head_def sorted_rows_def)

lemma set_dropna: "set (dropna xs) = {x. Some x \<in> set xs}"
  by (induction xs rule: dropna.induct) auto

lemma group_keys_set:
  "set (group_keys df) = {k. \<exists>r \<in> set (rows df). topic r = Some k}"
  by (force simp: group_keys_def set_dropna image_iff)

lemma group_keys_strict: "sorted_wrt (<) (group_keys df)"
  by (simp add: group_keys_def strict_sorted_iff)

lemma group_keys_of_set:
  "group_keys df = sorted_list_of_set {k. \<exists>r \<in> set (rows df). topic r = Some k}"
  by (simp add: group_keys_set[symmetric] group_keys_def sorted_list_of_set_sort_remdups)

lemma strict_sorted_Some: "sorted_wrt (<) (map Some ks) = sorted_wrt (<) ks"
  by (simp add: sorted_wrt_map)

lemma strict_sorted_filter_topic:
  "sorted_wrt (<) (map topic rs) \<Longrightarrow> sorted_wrt (<) (map topic (filter P rs))"
  by (simp add: sorted_wrt_map sorted_wrt_filter)

text \<open>
  Claim C9. On a historical table with the required columns the rows of the topic
  statistics are in strictly ascending order of their topic labels, one row per label
  of the table, whatever the order of the input rows; hence the weak topics, which are
  selected from them in order, and the lines that the Recommendation Generator writes
  for them, one per weak topic in table order, are in ascending label order too.
\<close>

theorem topic_statistics_sorted:
  assumes "set required_cols \<subseteq> set (columns historical_df)"
  shows "\<exists>topic_stats recent_trends weak imp.
      analyze_performance_data argsort parser current_df historical_df
        = Inr (topic_stats, recent_trends)
    \<and> map topic (rows topic_stats)
        = map Some (sorted_list_of_set {k. \<exists>r \<in> set (rows historical_df). topic r = Some k})
    \<and> sorted_wrt (<) (map topic (rows topic_stats))
    \<and> generate_insight_details topic_stats recent_trends = Inr (weak, imp)
    \<and> sorted_wrt (<) (map topic (rows weak))
    \<and> (\<forall>p. generate_recommendations weak p
             = Inr ((if empty_df weak then [encouragement] else map focus_line (rows weak))
                    @ persona_lines p))"
proof -
  let ?ts = "agg_mean (map (\<lambda>k. (k, group_rows historical_df k)) (group_keys historical_df))"
  let ?rt = "set_submission_time
                (historical_df\<lparr>rows := take 5 (sorted_rows argsort historical_df)\<rparr>)
                (to_datetime parser
                   (map submission_time (take 5 (sorted_rows argsort historical_df))))"
  let ?weak = "select_rows ?ts (map (\<lambda>r. num_lt (accuracy r) (6 / 10)) (rows ?ts))"
  let ?imp = "select_rows ?rt (map (\<lambda>d. num_gt d 0) (diff (map accuracy (rows ?rt))))"
  have cols: "Accuracy \<in> set (columns ?ts)" "Accuracy \<in> set (columns ?rt)"
    using assms by (auto simp: required_cols_def)
  have a: "analyze_performance_data argsort parser current_df historical_df = Inr (?ts, ?rt)"
    by (rule analyze_result[OF assms])
  have labels: "map topic (rows ?ts) = map Some (group_keys historical_df)"
    by (simp add: o_def)
  have b: "map topic (rows ?ts)
        = map Some (sorted_list_of_set {k. \<exists>r \<in> set (rows historical_df). topic r = Some k})"
    unfolding labels by (subst group_keys_of_set) (rule refl)
  have c: "sorted_wrt (<) (map topic (rows ?ts))"
    by (simp only: labels strict_sorted_Some group_keys_strict)
  have d: "generate_insight_details ?ts ?rt = Inr (?weak, ?imp)"
    by (rule insight_result[OF cols])
  have "rows ?weak = filter (\<lambda>r. num_lt (accuracy r) (6 / 10)) (rows ?ts)"
    by (simp only: select_rows_simps filter_zip_map)
  then have e: "sorted_wrt (<) (map topic (rows ?weak))"
    using c by (simp only: strict_sorted_filter_topic)
  have f: "\<forall>p. generate_recommendations ?weak p
             = Inr ((if empty_df ?weak then [encouragement] else map focus_line (rows ?weak))
                    @ persona_lines p)"
    by (simp add: generate_recommendations_def weak_topic_lines_def)
  from a b c d e f show ?thesis by blast
qed


lemma example_keys: "group_keys mixed_order_example = [''0'', ''A'', ''B'']"
  by (simp add: group_keys_def mixed_order_example_def)

lemma example_order:
  "nargsort stable_argsort (map submission_time (rows mixed_order_example)) = [2, 1, 4, 0, 3]"
  by (simp add: nargsort_def stable_argsort_def mixed_order_example_def Let_def
       upt_rec[of 0] upt_rec[of 1] upt_rec[of 2] upt_rec[of 3] upt_rec[of 4] upt_rec[of 5])

lemma example_stats:
  "agg_mean (map (\<lambda>k. (k, group_rows mixed_order_example k)) (group_keys mixed_order_example))
   = \<lparr>columns = [Topic, Accuracy, Difficulty, Score],
      rows = [\<lparr>topic = Some ''0'', accuracy = Some (1 / 10), difficulty = Some 1,
               score = Some 1, submission_time = ()\<rparr>,
              \<lparr>topic = Some ''A'', accuracy = Some (9 / 10), difficulty = Some 1,
               score = Some 9, submission_time = ()\<rparr>,
              \<lparr>topic = Some ''B'', accuracy = Some (4 / 10), difficulty = Some 2,
               score = Some 4, submission_time = ()\<rparr>]\<rparr>"
  unfolding example_keys
  by (simp add: agg_mean_def group_rows_def mixed_order_example_def mean_def)

theorem topic_statistics_sorted_witness:
  "\<exists>topic_stats recent_trends weak imp.
      analyze_performance_data stable_argsort example_parser no_topic_example mixed_order_example
        = Inr (topic_stats, recent_trends)
    \<and> map topic (rows topic_stats) = [Some ''0'', Some ''A'', Some ''B'']
    \<and> generate_insight_details topic_stats recent_trends = Inr (weak, imp)
    \<and> map topic (rows weak) = [Some ''0'', Some ''B'']
    \<and> generate_recommendations weak (Insufficient ''none'')
        = Inr [''Focus on the topic '0' with an accuracy of 0.10.'',
               ''Focus on the topic 'B' with an accuracy of 0.40.'',
               ''Unable to analyze persona due to insufficient data.'']"
proof -
  have h: "set required_cols \<subseteq> set (columns mixed_order_example)"
    by (simp add: required_cols_def mixed_order_example_def)
  from topic_statistics_sorted[OF h, of stable_argsort example_parser no_topic_example]
  obtain topic_stats recent_trends weak imp where
    a: "analyze_performance_data stable_argsort example_parser no_topic_example mixed_order_example
          = Inr (topic_stats, recent_trends)"
    and g: "generate_insight_details topic_stats recent_trends = Inr (weak, imp)"
    and r: "\<forall>p. generate_recommendations weak p
             = Inr ((if empty_df weak then [encouragement] else map focus_line (rows weak))
                    @ persona_lines p)"
    by blast
  from a have ts: "topic_stats = agg_mean (map (\<lambda>k. (k, group_rows mixed_order_example k))
                      (group_keys mixed_order_example))"
    and rt: "columns recent_trends = columns mixed_order_example"
    using h by (auto simp: analyze_result[OF h] required_cols_def)
  have cols: "Accuracy \<in> set (columns topic_stats)" "Accuracy \<in> set (columns recent_trends)"
    using h by (auto simp: ts rt required_cols_def)
  from g have w: "rows weak = filter (\<lambda>r. num_lt (accuracy r) (6 / 10)) (rows topic_stats)"
    and wc: "columns weak = columns topic_stats"
    by (auto simp: insight_result[OF cols] filter_zip_map)
  have w': "rows weak = [rows topic_stats ! 0, rows topic_stats ! 2]"
    unfolding w by (simp add: ts example_stats)
  have f1: "generate_recommendations weak (Insufficient ''none'')
        = Inr [''Focus on the topic '0' with an accuracy of 0.10.'',
               ''Focus on the topic 'B' with an accuracy of 0.40.'',
               ''Unable to analyze persona due to insufficient data.'']"
    using r w' wc
    by (simp add: ts example_stats empty_df_def persona_lines_def fallback_def focus_line_def
          quoted_def str_label_def format_2f_def round_half_even_def digit_char_def)
  have f2: "map topic (rows topic_stats) = [Some ''0'', Some ''A'', Some ''B'']"
    by (simp add: ts example_stats)
  have f3: "map topic (rows weak) = [Some ''0'', Some ''B'']"
    by (simp add: w' ts example_stats)
  show ?thesis
    by (intro exI[of _ topic_stats] exI[of _ recent_trends] exI[of _ weak] exI[of _ imp] conjI)
       (rule a f1 f2 f3 g)+
qed

section \<open>The Persona Identifier\<close>












section \<open>The trend window\<close>














lemma ties_order:
  "nargsort np_argsort (map submission_time (rows ties_example))
   = [0, 1, 18, 17, 16, 15, 14, 13, 12, 11, 10, 9, 8, 7, 6, 5, 4, 3, 2, 19]"
  by code_simp

lemma spec_ties: "map score (spec_trend_window example_parser ties_example)
   = [Some 0, Some 1, Some 2, Some 3, Some 4]"
  by code_simp

lemma win_ties: "map score (rows (snd (projr (analyze_performance_data np_argsort example_parser no_topic_example ties_example))))
   = [Some 0, Some 1, Some 18, Some 17, Some 16]"
  by code_simp





section \<open>The historical table is not written to\<close>

lemma extends_refl [simp]: "extends st st"
  by (simp add: extends_def)

lemma extends_trans: "extends a b \<Longrightarrow> extends b c \<Longrightarrow> extends a c"
  by (auto simp: extends_def)

lemma extends_append [simp]: "extends st (st @ xs)"
  by (simp add: extends_def nth_append)

lemma extends_update: "length st \<le> a \<Longrightarrow> extends st st' \<Longrightarrow> extends st (st'[a := x])"
  by (auto simp: extends_def)

lemma analyze_st_result:
  assumes "historical_df < length st" and "st ! historical_df = Raw hist"
  shows "\<exists>st'. extends st st' \<and>
     (case analyze_performance_data argsort parser current hist of
        Inl e \<Rightarrow> analyze_performance_data_st argsort parser st current_df historical_df = (Inl e, st')
      | Inr (ts, rt) \<Rightarrow>
          (\<exists>a b. analyze_performance_data_st argsort parser st current_df historical_df
                   = (Inr (a, b), st')
                 \<and> a < length st' \<and> b < length st' \<and> st' ! a = Stats ts \<and> st' ! b = Stamped rt))"
proof (cases "set required_cols \<subseteq> set (columns hist)")
  case False
  let ?st' = "st @ [Stats empty_frame, Stamped empty_frame]"
  have "analyze_performance_data_st argsort parser st current_df historical_df
          = (Inr (length st, Suc (length st)), ?st')"
    using False assms by (simp add: analyze_performance_data_st_def alloc_def)
  moreover have "analyze_performance_data argsort parser current hist
          = Inr (empty_frame, empty_frame)"
    using False by (simp add: analyze_performance_data_def)
  ultimately show ?thesis
    by (intro exI[of _ ?st']) (simp add: nth_append)
next
  case True
  let ?ts = "agg_mean (map (\<lambda>k. (k, group_rows hist k)) (group_keys hist))"
  let ?S = "hist\<lparr>rows := sorted_rows argsort hist\<rparr>"
  let ?rt = "set_submission_time (head 5 ?S)
               (to_datetime parser (map submission_time (rows (head 5 ?S))))"
  let ?st' = "st @ [Stats ?ts, Raw ?S, Stamped ?rt]"
  have cols: "Topic \<in> set (columns hist)" "Submission_time \<in> set (columns hist)"
    using True by (auto simp: required_cols_def)
  have "analyze_performance_data_st argsort parser st current_df historical_df
          = (Inr (length st, Suc (Suc (length st))), ?st')"
    using True assms cols
    by (simp add: analyze_performance_data_st_def alloc_def groupby_topic_def sort_values_def
          sorted_rows_def assign_datetime_def nth_append Let_def)
  moreover have "analyze_performance_data argsort parser current hist = Inr (?ts, ?rt)"
    using analyze_result[OF True, of argsort parser current] by (simp add: head_def)
  ultimately show ?thesis
    by (intro exI[of _ ?st']) (simp add: nth_append)
qed

lemma insight_st_result:
  assumes "st ! a = Stats ts" and "st ! b = Stamped rt"
  shows "generate_insight_details_st st a b =
     (case generate_insight_details ts rt of
        Inl e \<Rightarrow> (Inl e, st)
      | Inr (weak, imp) \<Rightarrow>
          (Inr (length st, Suc (length st)), st @ [Stats weak, Stamped imp]))"
  using assms
  by (simp add: generate_insight_details_st_def alloc_def split: sum.splits prod.splits)

text \<open>
  Claim C8. A run of the script from a store that holds the current and the historical
  table ends as the function \<open>pipeline\<close> of the two tables says, so every derived
  table and the persona are computed from the historical table; and every object of the
  store before the run, the historical table among them, is the same after the run.
  The same holds for the Analyzer alone: its assignment of the parsed times goes to the
  new table of the trend window.
\<close>

theorem historical_table_unchanged:
  assumes "current_df < length st" and "historical_df < length st"
    and "st ! current_df = Raw cur" and "st ! historical_df = Raw hist"
  shows "(\<exists>st'. pipeline_st argsort parser numeric_only st current_df historical_df
                 = (pipeline argsort parser numeric_only cur hist, st')
               \<and> length st \<le> length st'
               \<and> (\<forall>a < length st. st' ! a = st ! a)
               \<and> st' ! historical_df = Raw hist)
       \<and> (\<exists>r st'. analyze_performance_data_st argsort parser st current_df historical_df
                 = (r, st')
               \<and> (\<forall>a < length st. st' ! a = st ! a)
               \<and> st' ! historical_df = Raw hist)"
proof -
  from analyze_st_result[OF assms(2,4), where argsort = argsort and parser = parser
      and current = cur and current_df = current_df]
  obtain st1 where
    ext1: "extends st st1"
    and an: "case analyze_performance_data argsort parser cur hist of
        Inl e \<Rightarrow> analyze_performance_data_st argsort parser st current_df historical_df = (Inl e, st1)
      | Inr (ts, rt) \<Rightarrow>
          (\<exists>a b. analyze_performance_data_st argsort parser st current_df historical_df
                   = (Inr (a, b), st1)
                 \<and> a < length st1 \<and> b < length st1 \<and> st1 ! a = Stats ts \<and> st1 ! b = Stamped rt)"
    by blast
  have keep: "extends st st' \<Longrightarrow> st' ! historical_df = Raw hist" for st'
    using assms(2,4) by (simp add: extends_def)
  have second: "\<exists>r st'. analyze_performance_data_st argsort parser st current_df historical_df
                 = (r, st')
               \<and> (\<forall>a < length st. st' ! a = st ! a)
               \<and> st' ! historical_df = Raw hist"
    using an ext1 keep[OF ext1]
    by (cases "analyze_performance_data argsort parser cur hist") (auto simp: extends_def)
  have first: "\<exists>st'. pipeline_st argsort parser numeric_only st current_df historical_df
                 = (pipeline argsort parser numeric_only cur hist, st')
               \<and> extends st st'"
  proof (cases "empty_df cur \<or> empty_df hist")
    case True
    then show ?thesis
      using assms(3,4) by (intro exI[of _ st]) (simp add: pipeline_st_def pipeline_def is_empty_obj_def)
  next
    case ne: False
    show ?thesis
    proof (cases "analyze_performance_data argsort parser cur hist")
      case (Inl e)
      with an ne assms(3,4) ext1 show ?thesis
        by (intro exI[of _ st1]) (simp add: pipeline_st_def pipeline_def is_empty_obj_def)
    next
      case (Inr p)
      obtain ts rt where p: "p = (ts, rt)" by (cases p)
      with an Inr obtain a b where
        ab: "analyze_performance_data_st argsort parser st current_df historical_df
               = (Inr (a, b), st1)" "st1 ! a = Stats ts" "st1 ! b = Stamped rt"
        by auto
      show ?thesis
      proof (cases "empty_df ts")
        case True
        with ab Inr p ne assms(3,4) ext1 show ?thesis
          by (intro exI[of _ st1]) (simp add: pipeline_st_def pipeline_def is_empty_obj_def)
      next
        case nts: False
        show ?thesis
        proof (cases "generate_insight_details ts rt")
          case gl: (Inl e)
          with ab Inr p ne nts assms(3,4) ext1 show ?thesis
            by (intro exI[of _ st1])
               (simp add: pipeline_st_def pipeline_def is_empty_obj_def insight_st_result)
        next
          case gr: (Inr q)
          obtain weak imp where q: "q = (weak, imp)" by (cases q)
          let ?st2 = "st1 @ [Stats weak, Stamped imp]"
          have ext2: "extends st ?st2"
            using ext1 extends_append[of st1] by (rule extends_trans)
          have h2: "?st2 ! historical_df = Raw hist" by (rule keep[OF ext2])
          have w2: "?st2 ! length st1 = Stats weak" by (simp add: nth_append)
          have ins: "generate_insight_details_st st1 a b
                       = (Inr (length st1, Suc (length st1)), ?st2)"
            using gr q by (simp add: insight_st_result[OF ab(2,3)])
          show ?thesis
            using ab(1,2) Inr p ne nts assms(3,4) ext2 gr q ins h2 w2
            by (intro exI[of _ ?st2])
               (simp add: pipeline_st_def pipeline_def is_empty_obj_def
                  identify_student_persona_st_def generate_recommendations_st_def
                  split: sum.splits)
        qed
      qed
    qed
  qed
  then obtain st' where
    r: "pipeline_st argsort parser numeric_only st current_df historical_df
          = (pipeline argsort parser numeric_only cur hist, st')"
    and e: "extends st st'"
    by blast
  from e have "length st \<le> length st'" "\<forall>a < length st. st' ! a = st ! a"
    by (simp_all add: extends_def)
  with r keep[OF e] second show ?thesis by blast
qed

lemma mixed_persona:
  "identify_student_persona True mixed_order_example = Inr (Persona (Some ''A'') (Some ''A''))"
  by (simp add: identify_student_persona_def groupby_reduce_def groupby_topic_def group_keys_def
      group_rows_def mixed_order_example_def empty_df_def idxmin_def idxmax_def std_def mean_def
      Let_def)

lemma mixed_pipeline:
  "pipeline stable_argsort example_parser True no_topic_example mixed_order_example
   = ([Analyzer, Insight_Generator, Persona_Identifier, Recommendation_Generator],
      Printed [''Focus on the topic '0' with an accuracy of 0.10.'',
               ''Focus on the topic 'B' with an accuracy of 0.40.'',
               ''Leverage your strength in 'A' to build confidence.'',
               ''Maintain consistency in 'A'.''])"
proof -
  have h: "set required_cols \<subseteq> set (columns mixed_order_example)"
    by (simp add: required_cols_def mixed_order_example_def)
  have ne: "\<not> empty_df no_topic_example" "\<not> empty_df mixed_order_example"
    by (simp_all add: empty_df_def no_topic_example_def mixed_order_example_def)
  let ?ts = "agg_mean (map (\<lambda>k. (k, group_rows mixed_order_example k))
                      (group_keys mixed_order_example))"
  let ?rt = "set_submission_time
                (mixed_order_example\<lparr>rows := take 5 (sorted_rows stable_argsort mixed_order_example)\<rparr>)
                (to_datetime example_parser
                   (map submission_time (take 5 (sorted_rows stable_argsort mixed_order_example))))"
  have a: "analyze_performance_data stable_argsort example_parser no_topic_example
             mixed_order_example = Inr (?ts, ?rt)"
    by (rule analyze_result[OF h])
  have nts: "\<not> empty_df ?ts"
    by (simp add: example_stats empty_df_def)
  have cols: "Accuracy \<in> set (columns ?ts)" "Accuracy \<in> set (columns ?rt)"
    using h by (auto simp: required_cols_def)
  let ?weak = "select_rows ?ts (map (\<lambda>r. num_lt (accuracy r) (6 / 10)) (rows ?ts))"
  have w: "?weak = \<lparr>columns = [Topic, Accuracy, Difficulty, Score],
      rows = [\<lparr>topic = Some ''0'', accuracy = Some (1 / 10), difficulty = Some 1,
               score = Some 1, submission_time = ()\<rparr>,
              \<lparr>topic = Some ''B'', accuracy = Some (4 / 10), difficulty = Some 2,
               score = Some 4, submission_time = ()\<rparr>]\<rparr>"
    by (simp add: example_stats select_rows_def)
  have r: "generate_recommendations ?weak (Persona (Some ''A'') (Some ''A''))
     = Inr [''Focus on the topic '0' with an accuracy of 0.10.'',
               ''Focus on the topic 'B' with an accuracy of 0.40.'',
               ''Leverage your strength in 'A' to build confidence.'',
               ''Maintain consistency in 'A'.'']"
    unfolding w
    by (simp add: generate_recommendations_def weak_topic_lines_def empty_df_def
          persona_lines_def focus_line_def leverage_line_def maintain_line_def
          quoted_def str_label_def format_2f_def round_half_even_def digit_char_def)
  have g: "generate_insight_details ?ts ?rt
             = Inr (?weak, select_rows ?rt
                             (map (\<lambda>d. num_gt d 0) (diff (map accuracy (rows ?rt)))))"
    by (rule insight_result[OF cols])
  show ?thesis
    by (simp only: pipeline_def a g mixed_persona r ne nts sum.case prod.case if_False simp_thms)
qed

theorem historical_table_unchanged_witness:
  "\<exists>st'. pipeline_st stable_argsort example_parser True store_example 0 1
           = (([Analyzer, Insight_Generator, Persona_Identifier, Recommendation_Generator],
               Printed [''Focus on the topic '0' with an accuracy of 0.10.'',
                        ''Focus on the topic 'B' with an accuracy of 0.40.'',
                        ''Leverage your strength in 'A' to build confidence.'',
                        ''Maintain consistency in 'A'.'']), st')
         \<and> st' ! 0 = Raw no_topic_example \<and> st' ! 1 = Raw mixed_order_example"
proof -
  have h: "0 < length store_example" "1 < length store_example"
    "store_example ! 0 = Raw no_topic_example" "store_example ! 1 = Raw mixed_order_example"
    by (simp_all add: store_example_def)
  from historical_table_unchanged[OF h, of stable_argsort example_parser True]
  obtain st' where
    p: "pipeline_st stable_argsort example_parser True store_example 0 1
          = (pipeline stable_argsort example_parser True no_topic_example mixed_order_example, st')"
    and k: "\<forall>a < length store_example. st' ! a = store_example ! a"
    by blast
  from k h have "st' ! 0 = Raw no_topic_example" "st' ! 1 = Raw mixed_order_example"
    by auto
  with p show ?thesis unfolding mixed_pipeline by blast
qed

end
